theory Spec2Isabelle
  imports Main
begin

section \<open>The inference router of the question-answering service\<close>

text \<open>
  A shallow embedding of \<^verbatim>\<open>codingchallenge_qa_service/routers/infer.py\<close>: the
  answer validator, the two cleaning functions, the four wrappers around the downstream
  services and the controller \<^verbatim>\<open>infer\<close>. A leading underscore of a Python name is
  dropped (\<^verbatim>\<open>_clean_answer\<close> is \<open>clean_answer\<close>), since an Isabelle name starts
  with a letter.
\<close>

subsection \<open>Text: \<^verbatim>\<open>str.strip\<close> and \<^verbatim>\<open>str.lower\<close>\<close>

text \<open>
  A Python \<^verbatim>\<open>str\<close> is modelled as a \<open>string\<close> of ASCII characters. The characters
  that \<^verbatim>\<open>str.strip()\<close> removes in that range are tab, line feed, vertical tab, form
  feed, carriage return, the four separators \<^verbatim>\<open>0x1C\<close> to \<^verbatim>\<open>0x1F\<close>, and the space.
  \<^verbatim>\<open>str.lower()\<close> maps \<^verbatim>\<open>A\<close> to \<^verbatim>\<open>Z\<close> onto \<^verbatim>\<open>a\<close> to \<^verbatim>\<open>z\<close> and leaves every
  other ASCII character as it is. Characters beyond ASCII are outside the model: it
  neither strips nor lowers them.
\<close>

definition isspace :: "char \<Rightarrow> bool" where
  "isspace c \<longleftrightarrow> (let n = (of_char c :: nat) in (9 \<le> n \<and> n \<le> 13) \<or> (28 \<le> n \<and> n \<le> 32))"

definition strip :: "string \<Rightarrow> string" where
  "strip s = rev (dropWhile isspace (rev (dropWhile isspace s)))"

definition lower_char :: "char \<Rightarrow> char" where
  "lower_char c = (let n = (of_char c :: nat) in if 65 \<le> n \<and> n \<le> 90 then char_of (n + 32) else c)"

definition lower :: "string \<Rightarrow> string" where
  "lower s = map lower_char s"

subsection \<open>The answer validator and the cleaning functions\<close>

text \<open>
  Modelled from the spec: the enum \<^verbatim>\<open>Language\<close> is imported from
  \<^verbatim>\<open>models/qa_models.py\<close>, which is not among the sources; the request body of the
  spec lists its values as \<^verbatim>\<open>EN\<close> and \<^verbatim>\<open>DE\<close>.
\<close>

datatype Language = EN | DE

text \<open>
  \<^verbatim>\<open>_check_answer_validity(answer, language)\<close>. The parameter is annotated \<^verbatim>\<open>str\<close>,
  but the body tests it against \<^verbatim>\<open>None\<close>, so the model takes a \<open>string option\<close>.
  The function lowers the answer; it does not strip it.
\<close>

definition unknown_response :: "Language \<Rightarrow> string list" where
  "unknown_response lang =
     (if lang = EN then [''unknown'', ''unknown.''] else [''unbekannt'', ''unbekannt.''])"

definition check_answer_validity :: "string option \<Rightarrow> Language \<Rightarrow> bool" where
  "check_answer_validity a lang =
     (if a = None \<or> a = Some [] then False
      else if lower (the a) \<in> set (unknown_response lang) then False
      else True)"

definition clean_question :: "string \<Rightarrow> string" where
  "clean_question q = strip q"

definition clean_answer :: "string \<Rightarrow> string" where
  "clean_answer a = strip a"

subsection \<open>Data of a request\<close>

text \<open>
  Modelled from the spec: the request and response models, the two paraphrase models and
  the shapes of the downstream responses are declared outside the sources
  (\<^verbatim>\<open>models/infer_request.py\<close>, \<^verbatim>\<open>models/infer_response.py\<close>,
  \<^verbatim>\<open>models/paraphrase_models.py\<close>, and the services themselves). The records carry
  the fields that the router reads or writes, under the names it uses; \<^verbatim>\<open>user.id\<close> is
  \<open>user_id\<close>. The dictionaries returned by the services are records, so a missing key is
  outside the model.
\<close>

record User =
  user_id :: string

record InferRequest =
  query :: string
  course_id :: string
  user :: User
  language :: Language
  allow_annotation :: bool
  client :: string

record InferResponse =
  answer :: string
  question :: string
  answer_validity :: string
  transaction_id :: string
  is_gs_answer :: bool
  question_uuid :: string

record ParaphraseServiceRequest =
  question_content_str :: string
  course_id :: string

record ParaphraseServiceResponse =
  gs_answer_content_str :: string

record SensitivityVerdict =
  sensitivity :: string
  model_name :: string

record ModelContext =
  model_name :: string

record InferenceResult =
  answer :: string
  model_context :: ModelContext

record Document =
  doc_id :: string
  content :: string

text \<open>
  What the endpoint hands back: \<^verbatim>\<open>Response(status_code=n)\<close>, which has no body, or an
  \<^verbatim>\<open>InferResponse\<close>. A raised \<^verbatim>\<open>HTTPException(status_code, detail)\<close> is the
  left summand of the result.
\<close>

datatype HTTPException = HTTPException (status_code: nat) (detail: string)

datatype reply = Response nat | Returned InferResponse

type_synonym 'a raising = "HTTPException + 'a"

text \<open>
  Modelled from the spec: the rendering of the result is FastAPI's, not the router's. A
  raised \<^verbatim>\<open>HTTPException\<close> is answered with its status code and its detail, a
  \<^verbatim>\<open>Response\<close> with its own status code, and a returned model with status 200, the
  route giving no other.
\<close>

fun http_status :: "reply raising \<Rightarrow> nat" where
  "http_status (Inl (HTTPException sc d)) = sc"
| "http_status (Inr (Response sc)) = sc"
| "http_status (Inr (Returned body)) = 200"

fun answer_of :: "reply raising \<Rightarrow> string option" where
  "answer_of (Inr (Returned body)) = Some (InferResponse.answer body)"
| "answer_of r = None"

subsection \<open>Downstream services, the transaction and the state of a request\<close>

text \<open>
  The four services behind \<^verbatim>\<open>request.app.state.services\<close> are external. Each is a
  function of its keyword arguments and of the state \<open>'w\<close> of the outside world; it
  returns the world it leaves behind, together with the exception \<open>'e\<close> it raised or its
  response. Nothing is assumed about them.
\<close>

record ('w, 'e) services =
  sensitive_content_detection_service :: "string \<Rightarrow> string \<Rightarrow> 'w \<Rightarrow> ('e + SensitivityVerdict) \<times> 'w"
  prefiltering_service :: "string \<Rightarrow> Language \<Rightarrow> string list \<Rightarrow> 'w \<Rightarrow> ('e + Document option) \<times> 'w"
  paraphrase_service :: "ParaphraseServiceRequest \<Rightarrow> 'w \<Rightarrow> ('e + ParaphraseServiceResponse option) \<times> 'w"
  infer_service :: "string \<Rightarrow> Document \<Rightarrow> string \<Rightarrow> Language \<Rightarrow> 'w \<Rightarrow> ('e + InferenceResult) \<times> 'w"

text \<open>
  Modelled from the spec: the class of \<^verbatim>\<open>request.state.transaction\<close> is not among the
  sources. It is an append-only sequence of recorded facts, with a transaction
  identifier and the flag \<^verbatim>\<open>should_store\<close>. One constructor of \<open>fact\<close> stands for each
  dictionary that the router records; the durations read from the clock are left out.
\<close>

datatype 'e fact =
    RequestFact InferRequest string string
  | ErrorFact string 'e
  | SensitiveContentDetectionQuestionFact string string
  | SensitiveContentDetectionAnswerFact string string
  | PreselectionFact "string option"
  | ParaphraseFact ParaphraseServiceResponse
  | InferenceFact string string InferenceResult

record 'e Transaction =
  transaction_id :: string
  should_store :: bool
  records :: "'e fact list"

text \<open>
  The calls made to the services are kept in order, so that a theorem can say that a
  service was not called.
\<close>

datatype call =
    SensitiveContentDetectionRun string string
  | FindParaphrase ParaphraseServiceRequest
  | PrefilteringRun string Language "string list"
  | InferRun string Document string Language

record ('w, 'e) state =
  world :: 'w
  transaction :: "'e Transaction"
  calls :: "call list"

definition record_fact :: "'e fact \<Rightarrow> ('w, 'e) state \<Rightarrow> ('w, 'e) state" where
  "record_fact f s = s\<lparr>transaction := (transaction s)\<lparr>records := records (transaction s) @ [f]\<rparr>\<rparr>"

definition called :: "call \<Rightarrow> 'w \<Rightarrow> ('w, 'e) state \<Rightarrow> ('w, 'e) state" where
  "called c w s = s\<lparr>world := w, calls := calls s @ [c]\<rparr>"

subsection \<open>The wrappers around the services\<close>

text \<open>
  Every function below takes the state of the request and returns its result with the
  state it leaves. A function that can raise returns an \<open>HTTPException\<close> on the left; the
  state is returned in that case as well, since the error has been recorded by then.
  Logging is left out. A parameter whose Python name is also the name of a field is
  shortened: \<open>qry\<close> for \<^verbatim>\<open>query\<close>, \<open>uid\<close> for \<^verbatim>\<open>user_id\<close>, \<open>cid\<close> for
  \<^verbatim>\<open>course_id\<close>, \<open>lang\<close> for \<^verbatim>\<open>language\<close>, \<open>q\<close> for \<^verbatim>\<open>question\<close> and \<open>a\<close> for
  \<^verbatim>\<open>answer\<close>.
\<close>

definition run_sensitive_content_detection ::
  "('w, 'e) services \<Rightarrow> string \<Rightarrow> string \<Rightarrow> ('w, 'e) state \<Rightarrow> SensitivityVerdict raising \<times> ('w, 'e) state" where
  "run_sensitive_content_detection svc qry uid s =
     (case sensitive_content_detection_service svc qry uid (world s) of
        (Inl e, w) \<Rightarrow>
          (Inl (HTTPException 500 ''Sensitive Content Detection Exception.''),
           record_fact (ErrorFact ''Exception in Sensitive Content Detection.'' e)
             (called (SensitiveContentDetectionRun qry uid) w s))
      | (Inr scd_response, w) \<Rightarrow>
          (Inr scd_response, called (SensitiveContentDetectionRun qry uid) w s))"

definition question_has_sensitive_content ::
  "('w, 'e) services \<Rightarrow> string \<Rightarrow> string \<Rightarrow> ('w, 'e) state \<Rightarrow> bool raising \<times> ('w, 'e) state" where
  "question_has_sensitive_content svc uid q s =
     (case run_sensitive_content_detection svc q uid s of
        (Inl ex, s') \<Rightarrow> (Inl ex, s')
      | (Inr scd_response, s') \<Rightarrow>
          (Inr (sensitivity scd_response \<noteq> ''SAFE''),
           record_fact (SensitiveContentDetectionQuestionFact (sensitivity scd_response)
             (SensitivityVerdict.model_name scd_response)) s'))"

definition answer_has_sensitive_content ::
  "('w, 'e) services \<Rightarrow> string \<Rightarrow> string \<Rightarrow> ('w, 'e) state \<Rightarrow> bool raising \<times> ('w, 'e) state" where
  "answer_has_sensitive_content svc uid a s =
     (case run_sensitive_content_detection svc a uid s of
        (Inl ex, s') \<Rightarrow> (Inl ex, s')
      | (Inr scd_response, s') \<Rightarrow>
          (Inr (sensitivity scd_response \<noteq> ''SAFE''),
           record_fact (SensitiveContentDetectionAnswerFact (sensitivity scd_response)
             (SensitivityVerdict.model_name scd_response)) s'))"

text \<open>
  The prefiltering service returns a dictionary that the router tests for truth; \<open>None\<close>
  stands for the empty answer (\<^verbatim>\<open>None\<close> or \<^verbatim>\<open>{}\<close>), \<open>Some d\<close> for a document.
\<close>

definition get_prefiltered_documents_from_elasticsearch ::
  "('w, 'e) services \<Rightarrow> string \<Rightarrow> string \<Rightarrow> Language \<Rightarrow> ('w, 'e) state
     \<Rightarrow> Document option raising \<times> ('w, 'e) state" where
  "get_prefiltered_documents_from_elasticsearch svc cid q lang s =
     (case prefiltering_service svc q lang [cid] (world s) of
        (Inl e, w) \<Rightarrow>
          (Inl (HTTPException 412 ''Failed to fetch prefiltered document from ElasticSearch.''),
           record_fact (ErrorFact ''Exception in Prefiltering.'' e)
             (called (PrefilteringRun q lang [cid]) w s))
      | (Inr prefiltered_doc, w) \<Rightarrow>
          (Inr prefiltered_doc,
           record_fact (PreselectionFact (map_option doc_id prefiltered_doc))
             (called (PrefilteringRun q lang [cid]) w s)))"

text \<open>
  The paraphrase lookup never raises: \<^verbatim>\<open>answer_from_paraphrase\<close> starts as \<^verbatim>\<open>None\<close> and
  stays so when the service raises.
\<close>

definition get_answer_from_paraphrase ::
  "('w, 'e) services \<Rightarrow> string \<Rightarrow> string \<Rightarrow> ('w, 'e) state
     \<Rightarrow> ParaphraseServiceResponse option \<times> ('w, 'e) state" where
  "get_answer_from_paraphrase svc cid cleaned_question s =
     (let req = \<lparr>question_content_str = cleaned_question,
                 ParaphraseServiceRequest.course_id = cid\<rparr>
      in case paraphrase_service svc req (world s) of
        (Inl e, w) \<Rightarrow>
          (None, record_fact (ErrorFact ''Exception in Paraphrasing.'' e) (called (FindParaphrase req) w s))
      | (Inr None, w) \<Rightarrow> (None, called (FindParaphrase req) w s)
      | (Inr (Some answer_from_paraphrase), w) \<Rightarrow>
          (Some answer_from_paraphrase,
           record_fact (ParaphraseFact answer_from_paraphrase) (called (FindParaphrase req) w s)))"

definition get_model_inference_result ::
  "('w, 'e) services \<Rightarrow> string \<Rightarrow> string \<Rightarrow> Document \<Rightarrow> Language \<Rightarrow> ('w, 'e) state
     \<Rightarrow> InferenceResult raising \<times> ('w, 'e) state" where
  "get_model_inference_result svc uid q doc lang s =
     (case infer_service svc q doc uid lang (world s) of
        (Inl e, w) \<Rightarrow>
          (Inl (HTTPException 400 ''QAService Exception''),
           record_fact (ErrorFact ''Exception in QAService.'' e)
             (called (InferRun q doc uid lang) w s))
      | (Inr inference_response, w) \<Rightarrow>
          (Inr inference_response,
           record_fact (InferenceFact (ModelContext.model_name (model_context inference_response))
               (InferenceResult.answer inference_response) inference_response)
             (called (InferRun q doc uid lang) w s)))"

subsection \<open>The controller\<close>

text \<open>
  \<^verbatim>\<open>asyncio.gather(f, g)\<close> starts both coroutines, \<open>f\<close> first, and waits for both. The
  model runs \<open>f\<close>, then \<open>g\<close> on the state \<open>f\<close> left: both calls are made whatever either
  returns, and the exception of \<open>f\<close>, else that of \<open>g\<close>, is raised after them. The order
  in which the two responses arrive is not modelled.
\<close>

definition gather ::
  "(('w, 'e) state \<Rightarrow> 'a raising \<times> ('w, 'e) state) \<Rightarrow> (('w, 'e) state \<Rightarrow> 'b raising \<times> ('w, 'e) state)
     \<Rightarrow> ('w, 'e) state \<Rightarrow> ('a \<times> 'b) raising \<times> ('w, 'e) state" where
  "gather f g s =
     (case f s of (r1, s1) \<Rightarrow>
        case g s1 of (r2, s2) \<Rightarrow>
          (case r1 of
             Inl ex \<Rightarrow> Inl ex
           | Inr a \<Rightarrow> (case r2 of Inl ex \<Rightarrow> Inl ex | Inr b \<Rightarrow> Inr (a, b)),
           s2))"

text \<open>
  \<^verbatim>\<open>infer(request, request_body, background_tasks)\<close>. The value of \<^verbatim>\<open>uuid4()\<close> for
  the request is the parameter \<open>uuid\<close>.
\<close>

definition infer ::
  "('w, 'e) services \<Rightarrow> string \<Rightarrow> InferRequest \<Rightarrow> ('w, 'e) state \<Rightarrow> reply raising \<times> ('w, 'e) state" where
  "infer svc uuid request_body s =
     (let s0 = s\<lparr>transaction := (transaction s)\<lparr>should_store := True\<rparr>\<rparr>;
          cleaned_question = clean_question (query request_body);
          s1 = record_fact (RequestFact request_body uuid cleaned_question) s0
      in case gather
             (question_has_sensitive_content svc (user_id (user request_body)) cleaned_question)
             (\<lambda>t. case get_answer_from_paraphrase svc (InferRequest.course_id request_body) cleaned_question t
                  of (p, t') \<Rightarrow> (Inr p, t'))
             s1 of
        (Inl ex, s2) \<Rightarrow> (Inl ex, s2)
      | (Inr (has_sensitive_content, paraphrase), s2) \<Rightarrow>
          if has_sensitive_content then (Inr (Response 400), s2)
          else (case paraphrase of
            Some p \<Rightarrow>
              (Inr (Returned \<lparr>InferResponse.answer = gs_answer_content_str p,
                              question = cleaned_question,
                              answer_validity = ''valid'',
                              transaction_id = Transaction.transaction_id (transaction s2),
                              is_gs_answer = True,
                              question_uuid = uuid\<rparr>), s2)
          | None \<Rightarrow>
              (case get_prefiltered_documents_from_elasticsearch svc
                      (InferRequest.course_id request_body) cleaned_question (language request_body) s2 of
                 (Inl ex, s3) \<Rightarrow> (Inl ex, s3)
               | (Inr None, s3) \<Rightarrow> (Inr (Response 404), s3)
               | (Inr (Some prefiltered_doc), s3) \<Rightarrow>
                   (case get_model_inference_result svc (user_id (user request_body)) cleaned_question
                           prefiltered_doc (language request_body) s3 of
                      (Inl ex, s4) \<Rightarrow> (Inl ex, s4)
                    | (Inr model_inference_result, s4) \<Rightarrow>
                        (let cleaned_answer = clean_answer (InferenceResult.answer model_inference_result)
                         in if \<not> check_answer_validity (Some cleaned_answer) (language request_body)
                            then (Inr (Response 404), s4)
                            else (case answer_has_sensitive_content svc (user_id (user request_body))
                                         cleaned_answer s4 of
                                    (Inl ex, s5) \<Rightarrow> (Inl ex, s5)
                                  | (Inr sensitive, s5) \<Rightarrow>
                                      if sensitive then (Inr (Response 400), s5)
                                      else (Inr (Returned \<lparr>InferResponse.answer = cleaned_answer,
                                              question = cleaned_question,
                                              answer_validity = ''valid'',
                                              transaction_id = Transaction.transaction_id (transaction s5),
                                              is_gs_answer = False,
                                              question_uuid = uuid\<rparr>), s5)))))))"

subsection \<open>Scripted services and a sample request\<close>

text \<open>
  Services that answer from a script, for running the controller on concrete inputs. The
  world is the number of calls served so far. The sensitivity service answers \<open>sq\<close> to
  the first call of a request (the question) and \<open>sa\<close> to a later one (the answer); the
  other three services answer \<open>pr\<close>, \<open>dr\<close> and \<open>ir\<close>.
\<close>

definition scripted ::
  "string + SensitivityVerdict \<Rightarrow> string + SensitivityVerdict \<Rightarrow> string + ParaphraseServiceResponse option
     \<Rightarrow> string + Document option \<Rightarrow> string + InferenceResult \<Rightarrow> (nat, string) services" where
  "scripted sq sa pr dr ir =
     \<lparr>sensitive_content_detection_service = (\<lambda>qry uid w. (if w = 0 then sq else sa, Suc w)),
      prefiltering_service = (\<lambda>qry lang cids w. (dr, Suc w)),
      paraphrase_service = (\<lambda>req w. (pr, Suc w)),
      infer_service = (\<lambda>qry doc uid lang w. (ir, Suc w))\<rparr>"

definition verdict :: "string \<Rightarrow> string + SensitivityVerdict" where
  "verdict v = Inr \<lparr>sensitivity = v, SensitivityVerdict.model_name = ''scd-model''\<rparr>"

definition generated :: "string \<Rightarrow> string + InferenceResult" where
  "generated a = Inr \<lparr>InferenceResult.answer = a, model_context = \<lparr>ModelContext.model_name = ''qa-model''\<rparr>\<rparr>"

definition sample_document :: Document where
  "sample_document = \<lparr>doc_id = ''doc-7'', content = ''Paris is the capital of France.''\<rparr>"

definition fresh :: "(nat, string) state" where
  "fresh = \<lparr>world = 0,
            transaction = \<lparr>Transaction.transaction_id = ''tx-1'', should_store = False, records = []\<rparr>,
            calls = []\<rparr>"

definition sample_request :: InferRequest where
  "sample_request =
     \<lparr>query = '' What is the capital of France? '', InferRequest.course_id = ''course-1'',
      user = \<lparr>user_id = ''user-1''\<rparr>, language = EN, allow_annotation = False, client = ''web''\<rparr>"

section \<open>Properties\<close>

subsection \<open>Unfolding the controller\<close>

text \<open>
  The definitions that a run of the controller unfolds to, and the two ways in which a
  paraphrase lookup ends without a match: the service raised, or it found nothing.
\<close>

lemmas wrapper_defs =
  run_sensitive_content_detection_def question_has_sensitive_content_def
  answer_has_sensitive_content_def get_prefiltered_documents_from_elasticsearch_def
  get_answer_from_paraphrase_def get_model_inference_result_def gather_def
  record_fact_def called_def

lemmas scenario_defs =
  scripted_def verdict_def generated_def sample_document_def fresh_def sample_request_def
  clean_question_def clean_answer_def strip_def isspace_def

lemma no_match_cases:
  assumes "\<forall>p. pr \<noteq> Inr (Some p)"
  obtains e where "pr = Inl e" | "pr = Inr None"
proof (cases pr)
  case (Inl e)
  then show ?thesis using that(1) by blast
next
  case (Inr found)
  with assms have "found = None" by (cases found) auto
  with Inr show ?thesis using that(2) by blast
qed

subsection \<open>The answer validator\<close>

text \<open>
  C4, as amended. The validator compares the lowered answer with the unknown sentinels
  of the language, and it does not trim: for \<open>EN\<close> it rejects \<^verbatim>\<open>"Unknown"\<close> and
  \<^verbatim>\<open>"UNKNOWN."\<close>, and it accepts \<^verbatim>\<open>" unknown "\<close> as it stands. The controller cleans
  an answer before validating it, and the cleaned \<^verbatim>\<open>" unknown "\<close> is rejected.
\<close>

theorem check_answer_validity_en:
  "(check_answer_validity (Some a) EN \<longleftrightarrow> a \<noteq> [] \<and> lower a \<noteq> ''unknown'' \<and> lower a \<noteq> ''unknown.'')
   \<and> check_answer_validity (Some ''Unknown'') EN = False
   \<and> check_answer_validity (Some ''UNKNOWN.'') EN = False
   \<and> check_answer_validity (Some '' unknown '') EN = True
   \<and> clean_answer '' unknown '' = ''unknown''
   \<and> check_answer_validity (Some (clean_answer '' unknown '')) EN = False"
proof -
  have general:
    "check_answer_validity (Some a) EN \<longleftrightarrow> a \<noteq> [] \<and> lower a \<noteq> ''unknown'' \<and> lower a \<noteq> ''unknown.''"
    by (simp add: check_answer_validity_def unknown_response_def)
  have e1: "check_answer_validity (Some ''Unknown'') EN = False" by code_simp
  have e2: "check_answer_validity (Some ''UNKNOWN.'') EN = False" by code_simp
  have e3: "check_answer_validity (Some '' unknown '') EN = True" by code_simp
  have e4: "clean_answer '' unknown '' = ''unknown''" by code_simp
  have e5: "check_answer_validity (Some (clean_answer '' unknown '')) EN = False" by code_simp
  from general e1 e2 e3 e4 e5 show ?thesis by blast
qed

text \<open>
  C4, as stated, fails: the validator alone does not reject \<^verbatim>\<open>" unknown "\<close> for \<open>EN\<close>.
\<close>

theorem check_answer_validity_untrimmed_accepted:
  "check_answer_validity (Some '' unknown '') EN \<noteq> False"
  by code_simp

text \<open>
  C9. The sentinels are scoped by language. For \<open>DE\<close> the validator rejects exactly the
  empty answer and the answers that lower to \<^verbatim>\<open>"unbekannt"\<close> or \<^verbatim>\<open>"unbekannt."\<close>, so
  \<^verbatim>\<open>"Unbekannt"\<close> is rejected and \<^verbatim>\<open>"unknown"\<close> is not; for \<open>EN\<close> it does not reject
  \<^verbatim>\<open>"unbekannt"\<close>.
\<close>

theorem check_answer_validity_language_scoped:
  "(check_answer_validity (Some a) DE \<longleftrightarrow> a \<noteq> [] \<and> lower a \<noteq> ''unbekannt'' \<and> lower a \<noteq> ''unbekannt.'')
   \<and> check_answer_validity (Some ''unbekannt'') DE = False
   \<and> check_answer_validity (Some ''unbekannt.'') DE = False
   \<and> check_answer_validity (Some ''Unbekannt'') DE = False
   \<and> check_answer_validity (Some ''unknown'') DE = True
   \<and> check_answer_validity (Some ''unbekannt'') EN = True"
proof -
  have general:
    "check_answer_validity (Some a) DE \<longleftrightarrow> a \<noteq> [] \<and> lower a \<noteq> ''unbekannt'' \<and> lower a \<noteq> ''unbekannt.''"
    by (simp add: check_answer_validity_def unknown_response_def)
  have d1: "check_answer_validity (Some ''unbekannt'') DE = False" by code_simp
  have d2: "check_answer_validity (Some ''unbekannt.'') DE = False" by code_simp
  have d3: "check_answer_validity (Some ''Unbekannt'') DE = False" by code_simp
  have d4: "check_answer_validity (Some ''unknown'') DE = True" by code_simp
  have d5: "check_answer_validity (Some ''unbekannt'') EN = True" by code_simp
  from general d1 d2 d3 d4 d5 show ?thesis by blast
qed

subsection \<open>The join of the sensitivity check and the paraphrase lookup\<close>

text \<open>
  C1. When the sensitivity service classifies the cleaned question with a verdict other
  than \<^verbatim>\<open>SAFE\<close>, the controller returns \<^verbatim>\<open>Response(status_code=400)\<close>, whatever the
  paraphrase service did in the same join (a match, no match or an exception). The
  response carries no answer, and the only calls of the request are the sensitivity call
  and the paraphrase call: the document retriever and the inference service are not
  called.
\<close>

theorem sensitive_question_rejected:
  assumes q: "sensitive_content_detection_service svc (clean_question (query rb)) (user_id (user rb)) (world s)
                = (Inr v, wq)"
    and v: "sensitivity v \<noteq> ''SAFE''"
  shows "fst (infer svc uuid rb s) = Inr (Response 400)
     \<and> http_status (fst (infer svc uuid rb s)) = 400
     \<and> answer_of (fst (infer svc uuid rb s)) = None
     \<and> calls (snd (infer svc uuid rb s)) = calls s @
         [SensitiveContentDetectionRun (clean_question (query rb)) (user_id (user rb)),
          FindParaphrase \<lparr>question_content_str = clean_question (query rb),
            ParaphraseServiceRequest.course_id = InferRequest.course_id rb\<rparr>]"
proof -
  obtain pr wp where p:
    "paraphrase_service svc \<lparr>question_content_str = clean_question (query rb),
       ParaphraseServiceRequest.course_id = InferRequest.course_id rb\<rparr> wq = (pr, wp)"
    by (cases "paraphrase_service svc \<lparr>question_content_str = clean_question (query rb),
       ParaphraseServiceRequest.course_id = InferRequest.course_id rb\<rparr> wq")
  show ?thesis
  proof (cases pr)
    case (Inl e)
    with q v p show ?thesis by (simp add: infer_def wrapper_defs Let_def)
  next
    case (Inr found)
    with q v p show ?thesis by (cases found) (simp_all add: infer_def wrapper_defs Let_def)
  qed
qed

theorem sensitive_question_rejected_witness:
  "sensitivity \<lparr>sensitivity = ''UNSAFE'', SensitivityVerdict.model_name = ''scd-model''\<rparr> \<noteq> ''SAFE''
   \<and> fst (infer (scripted (verdict ''UNSAFE'') (verdict ''SAFE'')
             (Inr (Some \<lparr>gs_answer_content_str = ''Paris''\<rparr>)) (Inr (Some sample_document)) (generated ''Paris''))
          ''uuid-1'' sample_request fresh) = Inr (Response 400)
   \<and> calls (snd (infer (scripted (verdict ''UNSAFE'') (verdict ''SAFE'')
             (Inr (Some \<lparr>gs_answer_content_str = ''Paris''\<rparr>)) (Inr (Some sample_document)) (generated ''Paris''))
          ''uuid-1'' sample_request fresh)) =
       [SensitiveContentDetectionRun ''What is the capital of France?'' ''user-1'',
        FindParaphrase \<lparr>question_content_str = ''What is the capital of France?'',
          ParaphraseServiceRequest.course_id = ''course-1''\<rparr>]"
  using sensitive_question_rejected
    [where svc = "scripted (verdict ''UNSAFE'') (verdict ''SAFE'')
             (Inr (Some \<lparr>gs_answer_content_str = ''Paris''\<rparr>)) (Inr (Some sample_document)) (generated ''Paris'')"
       and rb = sample_request and s = fresh and uuid = "''uuid-1''" and wq = 1
       and v = "\<lparr>sensitivity = ''UNSAFE'', SensitivityVerdict.model_name = ''scd-model''\<rparr>"]
  by (simp add: scenario_defs)

text \<open>
  C2. When the question is classified \<^verbatim>\<open>SAFE\<close> and the paraphrase service returns a
  match, the controller returns an \<^verbatim>\<open>InferResponse\<close> (status 200) whose answer is the
  match's \<^verbatim>\<open>gs_answer_content_str\<close> as it is, with \<^verbatim>\<open>is_gs_answer\<close> true; the document
  retriever and the inference service are not called.
\<close>

theorem gold_standard_answer_returned:
  assumes q: "sensitive_content_detection_service svc (clean_question (query rb)) (user_id (user rb)) (world s)
                = (Inr v, wq)"
    and v: "sensitivity v = ''SAFE''"
    and p: "paraphrase_service svc \<lparr>question_content_str = clean_question (query rb),
              ParaphraseServiceRequest.course_id = InferRequest.course_id rb\<rparr> wq = (Inr (Some m), wp)"
  shows "fst (infer svc uuid rb s) =
           Inr (Returned \<lparr>InferResponse.answer = gs_answer_content_str m,
                  question = clean_question (query rb), answer_validity = ''valid'',
                  transaction_id = Transaction.transaction_id (transaction s),
                  is_gs_answer = True, question_uuid = uuid\<rparr>)
     \<and> http_status (fst (infer svc uuid rb s)) = 200
     \<and> answer_of (fst (infer svc uuid rb s)) = Some (gs_answer_content_str m)
     \<and> calls (snd (infer svc uuid rb s)) = calls s @
         [SensitiveContentDetectionRun (clean_question (query rb)) (user_id (user rb)),
          FindParaphrase \<lparr>question_content_str = clean_question (query rb),
            ParaphraseServiceRequest.course_id = InferRequest.course_id rb\<rparr>]"
  using q v p by (simp add: infer_def wrapper_defs Let_def)

theorem gold_standard_answer_returned_witness:
  "sensitivity \<lparr>sensitivity = ''SAFE'', SensitivityVerdict.model_name = ''scd-model''\<rparr> = ''SAFE''
   \<and> fst (infer (scripted (verdict ''SAFE'') (verdict ''SAFE'')
             (Inr (Some \<lparr>gs_answer_content_str = '' Paris''\<rparr>)) (Inl ''retrieval down'') (Inl ''inference down''))
          ''uuid-1'' sample_request fresh) =
       Inr (Returned \<lparr>InferResponse.answer = '' Paris'',
              question = ''What is the capital of France?'', answer_validity = ''valid'',
              transaction_id = ''tx-1'', is_gs_answer = True, question_uuid = ''uuid-1''\<rparr>)
   \<and> http_status (fst (infer (scripted (verdict ''SAFE'') (verdict ''SAFE'')
             (Inr (Some \<lparr>gs_answer_content_str = '' Paris''\<rparr>)) (Inl ''retrieval down'') (Inl ''inference down''))
          ''uuid-1'' sample_request fresh)) = 200"
  using gold_standard_answer_returned
    [where svc = "scripted (verdict ''SAFE'') (verdict ''SAFE'')
             (Inr (Some \<lparr>gs_answer_content_str = '' Paris''\<rparr>)) (Inl ''retrieval down'') (Inl ''inference down'')"
       and rb = sample_request and s = fresh and uuid = "''uuid-1''" and wq = 1 and wp = 2
       and v = "\<lparr>sensitivity = ''SAFE'', SensitivityVerdict.model_name = ''scd-model''\<rparr>"
       and m = "\<lparr>gs_answer_content_str = '' Paris''\<rparr>"]
  by (simp add: scenario_defs)

text \<open>
  C3. The paraphrase lookup fails open. Take a run in which the paraphrase service raises
  an exception, and the run of the same request against services that differ only in
  that the paraphrase lookup finds nothing (and leaves the world as the failed call
  did). Both runs end with the same result, have made the same calls and leave the same
  world: the exception of the paraphrase service does not reach the result, the wrapper
  returning \<open>None\<close> for it.
\<close>

theorem paraphrase_lookup_fails_open:
  assumes q: "sensitive_content_detection_service svc (clean_question (query rb)) (user_id (user rb)) (world s)
                = (rq, wq)"
    and a: "paraphrase_service svc \<lparr>question_content_str = clean_question (query rb),
              ParaphraseServiceRequest.course_id = InferRequest.course_id rb\<rparr> wq = (Inl e, wp)"
    and b: "pb \<lparr>question_content_str = clean_question (query rb),
              ParaphraseServiceRequest.course_id = InferRequest.course_id rb\<rparr> wq = (Inr None, wp)"
  shows "fst (infer svc uuid rb s) = fst (infer (svc\<lparr>paraphrase_service := pb\<rparr>) uuid rb s)
     \<and> calls (snd (infer svc uuid rb s)) = calls (snd (infer (svc\<lparr>paraphrase_service := pb\<rparr>) uuid rb s))
     \<and> world (snd (infer svc uuid rb s)) = world (snd (infer (svc\<lparr>paraphrase_service := pb\<rparr>) uuid rb s))
     \<and> fst (get_answer_from_paraphrase svc (InferRequest.course_id rb) (clean_question (query rb))
            (s\<lparr>world := wq\<rparr>)) = None"
proof -
  have swallowed:
    "fst (get_answer_from_paraphrase svc (InferRequest.course_id rb) (clean_question (query rb))
       (s\<lparr>world := wq\<rparr>)) = None"
    using a by (simp add: get_answer_from_paraphrase_def Let_def)
  obtain dr wd where d:
    "prefiltering_service svc (clean_question (query rb)) (language rb) [InferRequest.course_id rb] wp = (dr, wd)"
    by (cases "prefiltering_service svc (clean_question (query rb)) (language rb) [InferRequest.course_id rb] wp")
  have same:
    "fst (infer svc uuid rb s) = fst (infer (svc\<lparr>paraphrase_service := pb\<rparr>) uuid rb s)
     \<and> calls (snd (infer svc uuid rb s)) = calls (snd (infer (svc\<lparr>paraphrase_service := pb\<rparr>) uuid rb s))
     \<and> world (snd (infer svc uuid rb s)) = world (snd (infer (svc\<lparr>paraphrase_service := pb\<rparr>) uuid rb s))"
  proof (cases rq)
    case (Inl eq)
    with q a b show ?thesis by (simp add: infer_def wrapper_defs Let_def)
  next
    case (Inr v)
    note rq = this
    show ?thesis
    proof (cases "sensitivity v = ''SAFE''")
      case False
      with rq q a b show ?thesis by (simp add: infer_def wrapper_defs Let_def)
    next
      case True
      note safe = this
      show ?thesis
      proof (cases dr)
        case (Inl ed)
        with safe rq q a b d show ?thesis by (simp add: infer_def wrapper_defs Let_def)
      next
        case (Inr found)
        note dr = this
        show ?thesis
        proof (cases found)
          case None
          with dr safe rq q a b d show ?thesis by (simp add: infer_def wrapper_defs Let_def)
        next
          case (Some doc)
          note found = this
          obtain ir wi where i:
            "infer_service svc (clean_question (query rb)) doc (user_id (user rb)) (language rb) wd = (ir, wi)"
            by (cases "infer_service svc (clean_question (query rb)) doc (user_id (user rb)) (language rb) wd")
          show ?thesis
          proof (cases ir)
            case (Inl ei)
            with found dr safe rq q a b d i show ?thesis by (simp add: infer_def wrapper_defs Let_def)
          next
            case (Inr res)
            note ir = this
            show ?thesis
            proof (cases "check_answer_validity (Some (clean_answer (InferenceResult.answer res))) (language rb)")
              case False
              with ir found dr safe rq q a b d i show ?thesis by (simp add: infer_def wrapper_defs Let_def)
            next
              case True
              note valid = this
              obtain ra wa where f:
                "sensitive_content_detection_service svc (clean_answer (InferenceResult.answer res))
                   (user_id (user rb)) wi = (ra, wa)"
                by (cases "sensitive_content_detection_service svc (clean_answer (InferenceResult.answer res))
                   (user_id (user rb)) wi")
              show ?thesis
              proof (cases ra)
                case (Inl ea)
                with valid ir found dr safe rq q a b d i f show ?thesis
                  by (simp add: infer_def wrapper_defs Let_def)
              next
                case (Inr va)
                with valid ir found dr safe rq q a b d i f show ?thesis
                  by (simp add: infer_def wrapper_defs Let_def)
              qed
            qed
          qed
        qed
      qed
    qed
  qed
  with swallowed show ?thesis by blast
qed

theorem paraphrase_lookup_fails_open_witness:
  "fst (infer (scripted (verdict ''SAFE'') (verdict ''SAFE'') (Inl ''paraphrase service down'')
          (Inr None) (generated ''Paris'')) ''uuid-1'' sample_request fresh)
     = fst (infer ((scripted (verdict ''SAFE'') (verdict ''SAFE'') (Inl ''paraphrase service down'')
          (Inr None) (generated ''Paris''))\<lparr>paraphrase_service := (\<lambda>req w. (Inr None, Suc w))\<rparr>)
          ''uuid-1'' sample_request fresh)
   \<and> fst (infer (scripted (verdict ''SAFE'') (verdict ''SAFE'') (Inl ''paraphrase service down'')
          (Inr None) (generated ''Paris'')) ''uuid-1'' sample_request fresh) = Inr (Response 404)"
proof -
  have same:
    "fst (infer (scripted (verdict ''SAFE'') (verdict ''SAFE'') (Inl ''paraphrase service down'')
          (Inr None) (generated ''Paris'')) ''uuid-1'' sample_request fresh)
     = fst (infer ((scripted (verdict ''SAFE'') (verdict ''SAFE'') (Inl ''paraphrase service down'')
          (Inr None) (generated ''Paris''))\<lparr>paraphrase_service := (\<lambda>req w. (Inr None, Suc w))\<rparr>)
          ''uuid-1'' sample_request fresh)"
    using paraphrase_lookup_fails_open
      [where svc = "scripted (verdict ''SAFE'') (verdict ''SAFE'') (Inl ''paraphrase service down'')
          (Inr None) (generated ''Paris'')"
         and pb = "\<lambda>req w. (Inr None, Suc w)" and rb = sample_request and s = fresh
         and uuid = "''uuid-1''" and rq = "verdict ''SAFE''" and wq = 1 and wp = 2
         and e = "''paraphrase service down''"]
    by (simp add: scripted_def fresh_def)
  have outcome:
    "fst (infer (scripted (verdict ''SAFE'') (verdict ''SAFE'') (Inl ''paraphrase service down'')
          (Inr None) (generated ''Paris'')) ''uuid-1'' sample_request fresh) = Inr (Response 404)"
    by (simp add: infer_def wrapper_defs Let_def scenario_defs)
  from same outcome show ?thesis by blast
qed

subsection \<open>Retrieval, inference and the answer\<close>

text \<open>
  C6. When the question is classified \<^verbatim>\<open>SAFE\<close> and the paraphrase lookup ends without a
  match, an empty answer of the document retriever gives \<^verbatim>\<open>Response(status_code=404)\<close>
  and the inference service is not called: the calls of the request are the sensitivity
  call, the paraphrase call and the retrieval call. An exception of the retriever gives
  a different result, the \<^verbatim>\<open>HTTPException\<close> with status 412.
\<close>

theorem no_document_found:
  assumes q: "sensitive_content_detection_service svc (clean_question (query rb)) (user_id (user rb)) (world s)
                = (Inr v, wq)"
    and v: "sensitivity v = ''SAFE''"
    and p: "paraphrase_service svc \<lparr>question_content_str = clean_question (query rb),
              ParaphraseServiceRequest.course_id = InferRequest.course_id rb\<rparr> wq = (pr, wp)"
    and n: "\<forall>m. pr \<noteq> Inr (Some m)"
    and d: "prefiltering_service svc (clean_question (query rb)) (language rb) [InferRequest.course_id rb] wp
              = (dr, wd)"
  shows "(dr = Inr None \<longrightarrow>
            fst (infer svc uuid rb s) = Inr (Response 404)
          \<and> http_status (fst (infer svc uuid rb s)) = 404
          \<and> calls (snd (infer svc uuid rb s)) = calls s @
              [SensitiveContentDetectionRun (clean_question (query rb)) (user_id (user rb)),
               FindParaphrase \<lparr>question_content_str = clean_question (query rb),
                 ParaphraseServiceRequest.course_id = InferRequest.course_id rb\<rparr>,
               PrefilteringRun (clean_question (query rb)) (language rb) [InferRequest.course_id rb]])
       \<and> (\<forall>e. dr = Inl e \<longrightarrow>
            fst (infer svc uuid rb s) =
              Inl (HTTPException 412 ''Failed to fetch prefiltered document from ElasticSearch.'')
          \<and> http_status (fst (infer svc uuid rb s)) = 412)"
  using n
proof (cases rule: no_match_cases)
  case (1 e)
  with q v p d show ?thesis by (simp add: infer_def wrapper_defs Let_def)
next
  case 2
  with q v p d show ?thesis by (simp add: infer_def wrapper_defs Let_def)
qed

theorem no_document_found_witness:
  "fst (infer (scripted (verdict ''SAFE'') (verdict ''SAFE'') (Inr None) (Inr None) (generated ''Paris''))
          ''uuid-1'' sample_request fresh) = Inr (Response 404)
   \<and> calls (snd (infer (scripted (verdict ''SAFE'') (verdict ''SAFE'') (Inr None) (Inr None) (generated ''Paris''))
          ''uuid-1'' sample_request fresh)) =
       [SensitiveContentDetectionRun ''What is the capital of France?'' ''user-1'',
        FindParaphrase \<lparr>question_content_str = ''What is the capital of France?'',
          ParaphraseServiceRequest.course_id = ''course-1''\<rparr>,
        PrefilteringRun ''What is the capital of France?'' EN [''course-1'']]
   \<and> fst (infer (scripted (verdict ''SAFE'') (verdict ''SAFE'') (Inl ''paraphrase service down'')
          (Inl ''retrieval down'') (generated ''Paris'')) ''uuid-1'' sample_request fresh) =
       Inl (HTTPException 412 ''Failed to fetch prefiltered document from ElasticSearch.'')"
proof -
  have empty:
    "fst (infer (scripted (verdict ''SAFE'') (verdict ''SAFE'') (Inr None) (Inr None) (generated ''Paris''))
          ''uuid-1'' sample_request fresh) = Inr (Response 404)
     \<and> calls (snd (infer (scripted (verdict ''SAFE'') (verdict ''SAFE'') (Inr None) (Inr None) (generated ''Paris''))
          ''uuid-1'' sample_request fresh)) =
       [SensitiveContentDetectionRun ''What is the capital of France?'' ''user-1'',
        FindParaphrase \<lparr>question_content_str = ''What is the capital of France?'',
          ParaphraseServiceRequest.course_id = ''course-1''\<rparr>,
        PrefilteringRun ''What is the capital of France?'' EN [''course-1'']]"
    using no_document_found
      [where svc = "scripted (verdict ''SAFE'') (verdict ''SAFE'') (Inr None) (Inr None) (generated ''Paris'')"
         and rb = sample_request and s = fresh and uuid = "''uuid-1''" and wq = 1 and wp = 2 and wd = 3
         and v = "\<lparr>sensitivity = ''SAFE'', SensitivityVerdict.model_name = ''scd-model''\<rparr>"
         and pr = "Inr None" and dr = "Inr None"]
    by (simp add: scenario_defs)
  have raised:
    "fst (infer (scripted (verdict ''SAFE'') (verdict ''SAFE'') (Inl ''paraphrase service down'')
          (Inl ''retrieval down'') (generated ''Paris'')) ''uuid-1'' sample_request fresh) =
       Inl (HTTPException 412 ''Failed to fetch prefiltered document from ElasticSearch.'')"
    using no_document_found
      [where svc = "scripted (verdict ''SAFE'') (verdict ''SAFE'') (Inl ''paraphrase service down'')
          (Inl ''retrieval down'') (generated ''Paris'')"
         and rb = sample_request and s = fresh and uuid = "''uuid-1''" and wq = 1 and wp = 2 and wd = 3
         and v = "\<lparr>sensitivity = ''SAFE'', SensitivityVerdict.model_name = ''scd-model''\<rparr>"
         and pr = "Inl ''paraphrase service down''" and dr = "Inl ''retrieval down''"]
    by (simp add: scenario_defs)
  from empty raised show ?thesis by blast
qed





subsection \<open>Fatal failures and the sensitivity verdict\<close>

text \<open>
  C5. A failure of a downstream service other than the paraphrase service ends the
  request with an \<^verbatim>\<open>HTTPException\<close> whose status depends on the stage only: 500 when
  the sensitivity service raises on the question, whatever the paraphrase lookup did;
  412 when the document retriever raises; 400 when the inference service raises; 500
  when the sensitivity service raises on the answer. Each carries a fixed detail text and
  no answer. The names \<open>rq\<close>, \<open>pr\<close>, \<open>dr\<close>, \<open>ir\<close> and \<open>ra\<close> stand for what the five calls
  return, in the order in which the controller makes them.
\<close>

theorem fatal_failures_have_fixed_statuses:
  assumes q: "sensitive_content_detection_service svc (clean_question (query rb)) (user_id (user rb)) (world s)
                = (rq, wq)"
    and p: "paraphrase_service svc \<lparr>question_content_str = clean_question (query rb),
              ParaphraseServiceRequest.course_id = InferRequest.course_id rb\<rparr> wq = (pr, wp)"
    and d: "prefiltering_service svc (clean_question (query rb)) (language rb) [InferRequest.course_id rb] wp
              = (dr, wd)"
    and i: "infer_service svc (clean_question (query rb)) doc (user_id (user rb)) (language rb) wd
              = (ir, wi)"
    and f: "sensitive_content_detection_service svc (clean_answer (InferenceResult.answer res))
              (user_id (user rb)) wi = (ra, wa)"
  shows "(\<forall>e. rq = Inl e \<longrightarrow>
            fst (infer svc uuid rb s) = Inl (HTTPException 500 ''Sensitive Content Detection Exception.'')
          \<and> http_status (fst (infer svc uuid rb s)) = 500
          \<and> answer_of (fst (infer svc uuid rb s)) = None)
       \<and> (\<forall>v e. rq = Inr v \<and> sensitivity v = ''SAFE'' \<and> (\<forall>m. pr \<noteq> Inr (Some m)) \<and> dr = Inl e \<longrightarrow>
            fst (infer svc uuid rb s) =
              Inl (HTTPException 412 ''Failed to fetch prefiltered document from ElasticSearch.'')
          \<and> http_status (fst (infer svc uuid rb s)) = 412
          \<and> answer_of (fst (infer svc uuid rb s)) = None)
       \<and> (\<forall>v e. rq = Inr v \<and> sensitivity v = ''SAFE'' \<and> (\<forall>m. pr \<noteq> Inr (Some m))
              \<and> dr = Inr (Some doc) \<and> ir = Inl e \<longrightarrow>
            fst (infer svc uuid rb s) = Inl (HTTPException 400 ''QAService Exception'')
          \<and> http_status (fst (infer svc uuid rb s)) = 400
          \<and> answer_of (fst (infer svc uuid rb s)) = None)
       \<and> (\<forall>v e. rq = Inr v \<and> sensitivity v = ''SAFE'' \<and> (\<forall>m. pr \<noteq> Inr (Some m))
              \<and> dr = Inr (Some doc) \<and> ir = Inr res
              \<and> check_answer_validity (Some (clean_answer (InferenceResult.answer res))) (language rb)
              \<and> ra = Inl e \<longrightarrow>
            fst (infer svc uuid rb s) = Inl (HTTPException 500 ''Sensitive Content Detection Exception.'')
          \<and> http_status (fst (infer svc uuid rb s)) = 500
          \<and> answer_of (fst (infer svc uuid rb s)) = None)"
proof (intro conjI allI impI)
  fix e
  assume "rq = Inl e"
  with q p have r: "fst (infer svc uuid rb s) = Inl (HTTPException 500 ''Sensitive Content Detection Exception.'')"
    by (cases pr) (simp_all add: infer_def wrapper_defs Let_def split: option.splits)
  from r show "fst (infer svc uuid rb s) = Inl (HTTPException 500 ''Sensitive Content Detection Exception.'')" .
  from r show "http_status (fst (infer svc uuid rb s)) = 500" by simp
  from r show "answer_of (fst (infer svc uuid rb s)) = None" by simp
next
  fix v e
  assume h: "rq = Inr v \<and> sensitivity v = ''SAFE'' \<and> (\<forall>m. pr \<noteq> Inr (Some m)) \<and> dr = Inl e"
  then have n: "\<forall>m. pr \<noteq> Inr (Some m)" by blast
  from n have r: "fst (infer svc uuid rb s) =
      Inl (HTTPException 412 ''Failed to fetch prefiltered document from ElasticSearch.'')"
  proof (cases rule: no_match_cases)
    case (1 x)
    with h q p d show ?thesis by (simp add: infer_def wrapper_defs Let_def)
  next
    case 2
    with h q p d show ?thesis by (simp add: infer_def wrapper_defs Let_def)
  qed
  from r show "fst (infer svc uuid rb s) =
      Inl (HTTPException 412 ''Failed to fetch prefiltered document from ElasticSearch.'')" .
  from r show "http_status (fst (infer svc uuid rb s)) = 412" by simp
  from r show "answer_of (fst (infer svc uuid rb s)) = None" by simp
next
  fix v e
  assume h: "rq = Inr v \<and> sensitivity v = ''SAFE'' \<and> (\<forall>m. pr \<noteq> Inr (Some m))
     \<and> dr = Inr (Some doc) \<and> ir = Inl e"
  then have n: "\<forall>m. pr \<noteq> Inr (Some m)" by blast
  from n have r: "fst (infer svc uuid rb s) = Inl (HTTPException 400 ''QAService Exception'')"
  proof (cases rule: no_match_cases)
    case (1 x)
    with h q p d i show ?thesis by (simp add: infer_def wrapper_defs Let_def)
  next
    case 2
    with h q p d i show ?thesis by (simp add: infer_def wrapper_defs Let_def)
  qed
  from r show "fst (infer svc uuid rb s) = Inl (HTTPException 400 ''QAService Exception'')" .
  from r show "http_status (fst (infer svc uuid rb s)) = 400" by simp
  from r show "answer_of (fst (infer svc uuid rb s)) = None" by simp
next
  fix v e
  assume h: "rq = Inr v \<and> sensitivity v = ''SAFE'' \<and> (\<forall>m. pr \<noteq> Inr (Some m))
     \<and> dr = Inr (Some doc) \<and> ir = Inr res
     \<and> check_answer_validity (Some (clean_answer (InferenceResult.answer res))) (language rb)
     \<and> ra = Inl e"
  then have n: "\<forall>m. pr \<noteq> Inr (Some m)" by blast
  from n have r: "fst (infer svc uuid rb s) = Inl (HTTPException 500 ''Sensitive Content Detection Exception.'')"
  proof (cases rule: no_match_cases)
    case (1 x)
    with h q p d i f show ?thesis by (simp add: infer_def wrapper_defs Let_def)
  next
    case 2
    with h q p d i f show ?thesis by (simp add: infer_def wrapper_defs Let_def)
  qed
  from r show "fst (infer svc uuid rb s) = Inl (HTTPException 500 ''Sensitive Content Detection Exception.'')" .
  from r show "http_status (fst (infer svc uuid rb s)) = 500" by simp
  from r show "answer_of (fst (infer svc uuid rb s)) = None" by simp
qed

theorem fatal_failures_have_fixed_statuses_witness:
  "fst (infer (scripted (Inl ''scd down'') (verdict ''SAFE'') (Inr (Some \<lparr>gs_answer_content_str = ''Paris''\<rparr>))
          (Inr (Some sample_document)) (generated ''Paris'')) ''uuid-1'' sample_request fresh) =
     Inl (HTTPException 500 ''Sensitive Content Detection Exception.'')
   \<and> fst (infer (scripted (verdict ''SAFE'') (verdict ''SAFE'') (Inr None)
          (Inl ''search down'') (generated ''Paris'')) ''uuid-1'' sample_request fresh) =
     Inl (HTTPException 412 ''Failed to fetch prefiltered document from ElasticSearch.'')
   \<and> fst (infer (scripted (verdict ''SAFE'') (verdict ''SAFE'') (Inr None)
          (Inr (Some sample_document)) (Inl ''model down'')) ''uuid-1'' sample_request fresh) =
     Inl (HTTPException 400 ''QAService Exception'')
   \<and> fst (infer (scripted (verdict ''SAFE'') (Inl ''scd down'') (Inr None)
          (Inr (Some sample_document)) (generated ''Paris'')) ''uuid-1'' sample_request fresh) =
     Inl (HTTPException 500 ''Sensitive Content Detection Exception.'')"
proof -
  have valid: "check_answer_validity (Some (clean_answer ''Paris'')) EN"
    by code_simp
  have lang: "language sample_request = EN"
    by (simp add: sample_request_def)
  have question_stage:
    "fst (infer (scripted (Inl ''scd down'') (verdict ''SAFE'') (Inr (Some \<lparr>gs_answer_content_str = ''Paris''\<rparr>))
          (Inr (Some sample_document)) (generated ''Paris'')) ''uuid-1'' sample_request fresh) =
     Inl (HTTPException 500 ''Sensitive Content Detection Exception.'')"
    using fatal_failures_have_fixed_statuses
      [where svc = "scripted (Inl ''scd down'') (verdict ''SAFE'') (Inr (Some \<lparr>gs_answer_content_str = ''Paris''\<rparr>))
          (Inr (Some sample_document)) (generated ''Paris'')"
         and rb = sample_request and s = fresh and uuid = "''uuid-1''"
         and rq = "Inl ''scd down''" and wq = 1
         and pr = "Inr (Some \<lparr>gs_answer_content_str = ''Paris''\<rparr>)" and wp = 2
         and dr = "Inr (Some sample_document)" and wd = 3 and doc = sample_document
         and ir = "generated ''Paris''" and wi = 4
         and res = "\<lparr>InferenceResult.answer = ''Paris'',
                      model_context = \<lparr>ModelContext.model_name = ''qa-model''\<rparr>\<rparr>"
         and ra = "verdict ''SAFE''" and wa = 5]
    by (simp add: scripted_def fresh_def)
  have retrieval_stage:
    "fst (infer (scripted (verdict ''SAFE'') (verdict ''SAFE'') (Inr None)
          (Inl ''search down'') (generated ''Paris'')) ''uuid-1'' sample_request fresh) =
     Inl (HTTPException 412 ''Failed to fetch prefiltered document from ElasticSearch.'')"
    using fatal_failures_have_fixed_statuses
      [where svc = "scripted (verdict ''SAFE'') (verdict ''SAFE'') (Inr None)
          (Inl ''search down'') (generated ''Paris'')"
         and rb = sample_request and s = fresh and uuid = "''uuid-1''"
         and rq = "verdict ''SAFE''" and wq = 1 and pr = "Inr None" and wp = 2
         and dr = "Inl ''search down''" and wd = 3 and doc = sample_document
         and ir = "generated ''Paris''" and wi = 4
         and res = "\<lparr>InferenceResult.answer = ''Paris'',
                      model_context = \<lparr>ModelContext.model_name = ''qa-model''\<rparr>\<rparr>"
         and ra = "verdict ''SAFE''" and wa = 5]
    by (simp add: scripted_def fresh_def verdict_def)
  have inference_stage:
    "fst (infer (scripted (verdict ''SAFE'') (verdict ''SAFE'') (Inr None)
          (Inr (Some sample_document)) (Inl ''model down'')) ''uuid-1'' sample_request fresh) =
     Inl (HTTPException 400 ''QAService Exception'')"
    using fatal_failures_have_fixed_statuses
      [where svc = "scripted (verdict ''SAFE'') (verdict ''SAFE'') (Inr None)
          (Inr (Some sample_document)) (Inl ''model down'')"
         and rb = sample_request and s = fresh and uuid = "''uuid-1''"
         and rq = "verdict ''SAFE''" and wq = 1 and pr = "Inr None" and wp = 2
         and dr = "Inr (Some sample_document)" and wd = 3 and doc = sample_document
         and ir = "Inl ''model down''" and wi = 4
         and res = "\<lparr>InferenceResult.answer = ''Paris'',
                      model_context = \<lparr>ModelContext.model_name = ''qa-model''\<rparr>\<rparr>"
         and ra = "verdict ''SAFE''" and wa = 5]
    by (simp add: scripted_def fresh_def verdict_def)
  have answer_stage:
    "fst (infer (scripted (verdict ''SAFE'') (Inl ''scd down'') (Inr None)
          (Inr (Some sample_document)) (generated ''Paris'')) ''uuid-1'' sample_request fresh) =
     Inl (HTTPException 500 ''Sensitive Content Detection Exception.'')"
    using valid lang fatal_failures_have_fixed_statuses
      [where svc = "scripted (verdict ''SAFE'') (Inl ''scd down'') (Inr None)
          (Inr (Some sample_document)) (generated ''Paris'')"
         and rb = sample_request and s = fresh and uuid = "''uuid-1''"
         and rq = "verdict ''SAFE''" and wq = 1 and pr = "Inr None" and wp = 2
         and dr = "Inr (Some sample_document)" and wd = 3 and doc = sample_document
         and ir = "generated ''Paris''" and wi = 4
         and res = "\<lparr>InferenceResult.answer = ''Paris'',
                      model_context = \<lparr>ModelContext.model_name = ''qa-model''\<rparr>\<rparr>"
         and ra = "Inl ''scd down''" and wa = 5]
    by (simp add: scripted_def fresh_def verdict_def generated_def)
  from question_stage retrieval_stage inference_stage answer_stage show ?thesis by blast
qed

text \<open>
  C10. Both sensitivity checks report sensitive content exactly when the verdict of the
  service is not the string \<^verbatim>\<open>SAFE\<close>: whenever the service answers with a verdict
  \<open>vt\<close>, each check returns \<open>sensitivity vt \<noteq> ''SAFE''\<close>. In the controller such a verdict
  for the question gives \<^verbatim>\<open>Response(status_code=400)\<close>, and so does such a verdict for
  the cleaned answer on a run that reaches the answer check. The state \<open>t\<close> is the one in
  which the check is made, \<open>s\<close> the one in which the request starts.
\<close>

theorem sensitivity_verdict_fail_closed:
  assumes t: "sensitive_content_detection_service svc msg uid (world t) = (Inr vt, wt)"
  shows "fst (question_has_sensitive_content svc uid msg t) = Inr (sensitivity vt \<noteq> ''SAFE'')
     \<and> fst (answer_has_sensitive_content svc uid msg t) = Inr (sensitivity vt \<noteq> ''SAFE'')
     \<and> (sensitivity vt \<noteq> ''SAFE'' \<and> msg = clean_question (query rb) \<and> uid = user_id (user rb) \<longrightarrow>
          fst (infer svc uuid rb t) = Inr (Response 400))
     \<and> (sensitivity vt \<noteq> ''SAFE'' \<and> msg = clean_answer (InferenceResult.answer res)
          \<and> uid = user_id (user rb)
          \<and> sensitive_content_detection_service svc (clean_question (query rb)) (user_id (user rb)) (world s)
              = (Inr v, wq)
          \<and> sensitivity v = ''SAFE''
          \<and> paraphrase_service svc \<lparr>question_content_str = clean_question (query rb),
               ParaphraseServiceRequest.course_id = InferRequest.course_id rb\<rparr> wq = (pr, wp)
          \<and> (\<forall>m. pr \<noteq> Inr (Some m))
          \<and> prefiltering_service svc (clean_question (query rb)) (language rb) [InferRequest.course_id rb] wp
              = (Inr (Some doc), wd)
          \<and> infer_service svc (clean_question (query rb)) doc (user_id (user rb)) (language rb) wd
              = (Inr res, world t)
          \<and> check_answer_validity (Some (clean_answer (InferenceResult.answer res))) (language rb) \<longrightarrow>
          fst (infer svc uuid rb s) = Inr (Response 400))"
proof (intro conjI impI)
  from t show "fst (question_has_sensitive_content svc uid msg t) = Inr (sensitivity vt \<noteq> ''SAFE'')"
    by (simp add: question_has_sensitive_content_def run_sensitive_content_detection_def)
  from t show "fst (answer_has_sensitive_content svc uid msg t) = Inr (sensitivity vt \<noteq> ''SAFE'')"
    by (simp add: answer_has_sensitive_content_def run_sensitive_content_detection_def)
next
  assume h: "sensitivity vt \<noteq> ''SAFE'' \<and> msg = clean_question (query rb) \<and> uid = user_id (user rb)"
  obtain pq wpq where pq:
    "paraphrase_service svc \<lparr>question_content_str = clean_question (query rb),
       ParaphraseServiceRequest.course_id = InferRequest.course_id rb\<rparr> wt = (pq, wpq)"
    by (cases "paraphrase_service svc \<lparr>question_content_str = clean_question (query rb),
       ParaphraseServiceRequest.course_id = InferRequest.course_id rb\<rparr> wt")
  show "fst (infer svc uuid rb t) = Inr (Response 400)"
  proof (cases pq)
    case (Inl e)
    with h t pq show ?thesis by (simp add: infer_def wrapper_defs Let_def)
  next
    case (Inr found)
    with h t pq show ?thesis by (cases found) (simp_all add: infer_def wrapper_defs Let_def)
  qed
next
  assume h: "sensitivity vt \<noteq> ''SAFE'' \<and> msg = clean_answer (InferenceResult.answer res)
          \<and> uid = user_id (user rb)
          \<and> sensitive_content_detection_service svc (clean_question (query rb)) (user_id (user rb)) (world s)
              = (Inr v, wq)
          \<and> sensitivity v = ''SAFE''
          \<and> paraphrase_service svc \<lparr>question_content_str = clean_question (query rb),
               ParaphraseServiceRequest.course_id = InferRequest.course_id rb\<rparr> wq = (pr, wp)
          \<and> (\<forall>m. pr \<noteq> Inr (Some m))
          \<and> prefiltering_service svc (clean_question (query rb)) (language rb) [InferRequest.course_id rb] wp
              = (Inr (Some doc), wd)
          \<and> infer_service svc (clean_question (query rb)) doc (user_id (user rb)) (language rb) wd
              = (Inr res, world t)
          \<and> check_answer_validity (Some (clean_answer (InferenceResult.answer res))) (language rb)"
  then have n: "\<forall>m. pr \<noteq> Inr (Some m)" by blast
  from n show "fst (infer svc uuid rb s) = Inr (Response 400)"
  proof (cases rule: no_match_cases)
    case (1 e)
    with h t show ?thesis by (simp add: infer_def wrapper_defs Let_def)
  next
    case 2
    with h t show ?thesis by (simp add: infer_def wrapper_defs Let_def)
  qed
qed

theorem sensitivity_verdict_fail_closed_witness:
  "fst (question_has_sensitive_content
          (scripted (verdict ''UNSAFE'') (verdict ''SAFE'') (Inr None) (Inr (Some sample_document)) (generated ''Paris''))
          ''user-1'' ''What is the capital of France?'' fresh) = Inr True
   \<and> fst (infer (scripted (verdict ''UNSAFE'') (verdict ''SAFE'') (Inr None) (Inr (Some sample_document))
             (generated ''Paris'')) ''uuid-1'' sample_request fresh) = Inr (Response 400)
   \<and> fst (answer_has_sensitive_content
          (scripted (verdict ''SAFE'') (verdict ''safe'') (Inr None) (Inr (Some sample_document)) (generated ''Paris''))
          ''user-1'' (clean_answer ''Paris'') (fresh\<lparr>world := 4\<rparr>)) = Inr True
   \<and> fst (infer (scripted (verdict ''SAFE'') (verdict ''safe'') (Inr None) (Inr (Some sample_document))
             (generated ''Paris'')) ''uuid-1'' sample_request fresh) = Inr (Response 400)"
proof -
  have valid: "check_answer_validity (Some (clean_answer ''Paris'')) EN"
    by code_simp
  have lang: "language sample_request = EN"
    by (simp add: sample_request_def)
  have question_site:
    "fst (question_has_sensitive_content
          (scripted (verdict ''UNSAFE'') (verdict ''SAFE'') (Inr None) (Inr (Some sample_document)) (generated ''Paris''))
          ''user-1'' ''What is the capital of France?'' fresh) = Inr True
     \<and> fst (infer (scripted (verdict ''UNSAFE'') (verdict ''SAFE'') (Inr None) (Inr (Some sample_document))
             (generated ''Paris'')) ''uuid-1'' sample_request fresh) = Inr (Response 400)"
    using sensitivity_verdict_fail_closed
      [where svc = "scripted (verdict ''UNSAFE'') (verdict ''SAFE'') (Inr None) (Inr (Some sample_document))
             (generated ''Paris'')"
         and msg = "''What is the capital of France?''" and uid = "''user-1''" and t = fresh
         and vt = "\<lparr>sensitivity = ''UNSAFE'', SensitivityVerdict.model_name = ''scd-model''\<rparr>"
         and wt = 1 and rb = sample_request and uuid = "''uuid-1''"]
    by (simp add: scenario_defs)
  have answer_site:
    "fst (answer_has_sensitive_content
          (scripted (verdict ''SAFE'') (verdict ''safe'') (Inr None) (Inr (Some sample_document)) (generated ''Paris''))
          ''user-1'' (clean_answer ''Paris'') (fresh\<lparr>world := 4\<rparr>)) = Inr True
     \<and> fst (infer (scripted (verdict ''SAFE'') (verdict ''safe'') (Inr None) (Inr (Some sample_document))
             (generated ''Paris'')) ''uuid-1'' sample_request fresh) = Inr (Response 400)"
    using valid lang sensitivity_verdict_fail_closed
      [where svc = "scripted (verdict ''SAFE'') (verdict ''safe'') (Inr None) (Inr (Some sample_document))
             (generated ''Paris'')"
         and msg = "clean_answer ''Paris''" and uid = "''user-1''" and t = "fresh\<lparr>world := 4\<rparr>"
         and vt = "\<lparr>sensitivity = ''safe'', SensitivityVerdict.model_name = ''scd-model''\<rparr>"
         and wt = 5 and rb = sample_request and uuid = "''uuid-1''" and s = fresh
         and v = "\<lparr>sensitivity = ''SAFE'', SensitivityVerdict.model_name = ''scd-model''\<rparr>"
         and wq = 1 and pr = "Inr None" and wp = 2 and doc = sample_document and wd = 3
         and res = "\<lparr>InferenceResult.answer = ''Paris'',
                      model_context = \<lparr>ModelContext.model_name = ''qa-model''\<rparr>\<rparr>"]
    by (simp add: scripted_def verdict_def generated_def fresh_def sample_request_def
          clean_question_def strip_def isspace_def)
  from question_site answer_site show ?thesis by blast
qed

end
